theory Spec2Isabelle
  imports Complex_Main
begin

section \<open>Numbers\<close>

text \<open>
  The component computes with JavaScript numbers. Pixel quantities (positions, sizes,
  deltas, DOM measurements) are modelled as \<^typ>\<open>real\<close>: finite values, with the rounding of
  IEEE doubles idealised away. Division by zero, which JavaScript answers with an infinity
  or NaN and HOL with 0, is kept out of every statement by a hypothesis.

  The grid-unit size bounds \<open>minW\<close>, \<open>maxW\<close>, \<open>minH\<close>, \<open>maxH\<close> and \<open>maxRows\<close> may be
  \<open>Infinity\<close> (the default of \<open>maxW\<close> and \<open>maxH\<close>), so grid-unit sizes live in the
  extended numbers \<open>num\<close>, ordered as JavaScript orders them. NaN is not modelled.
\<close>

datatype num = NegInfinity | Finite real | Infinity

instantiation num :: linorder
begin

fun less_eq_num :: "num \<Rightarrow> num \<Rightarrow> bool" where
  "less_eq_num NegInfinity b = True"
| "less_eq_num (Finite a) NegInfinity = False"
| "less_eq_num (Finite a) (Finite b) = (a \<le> b)"
| "less_eq_num (Finite a) Infinity = True"
| "less_eq_num Infinity Infinity = True"
| "less_eq_num Infinity b = False"

definition less_num :: "num \<Rightarrow> num \<Rightarrow> bool" where
  "less_num a b = (a \<le> b \<and> \<not> b \<le> (a::num))"

instance
proof
  fix x y z :: num
  show "(x < y) = (x \<le> y \<and> \<not> y \<le> x)"
    by (simp add: less_num_def)
  show "x \<le> x"
    by (cases x) simp_all
  show "x \<le> y \<Longrightarrow> y \<le> z \<Longrightarrow> x \<le> z"
    by (cases x; cases y; cases z) simp_all
  show "x \<le> y \<Longrightarrow> y \<le> x \<Longrightarrow> x = y"
    by (cases x; cases y) simp_all
  show "x \<le> y \<or> y \<le> x"
    by (cases x; cases y) auto
qed

end

text \<open>
  Modelled from the spec: \<open>clamp\<close> is imported from \<open>./calculateUtils\<close>, which is not among
  the sources. Section 4.1 of the specification calls it the standard clamp of a value
  into \<open>[min, max]\<close>; it is written here as the upper bound applied first and the lower
  bound second.
\<close>

definition clamp :: "'a::linorder \<Rightarrow> 'a \<Rightarrow> 'a \<Rightarrow> 'a" where
  "clamp n lowerBound upperBound = max (min n upperBound) lowerBound"

section \<open>Data\<close>

text \<open>
  \<open>PartialPosition = {top, left}\<close> and \<open>Position = {left, top, width, height}\<close>; the fields
  carry the suffix \<open>_px\<close> because \<open>top\<close> is a constant of HOL.
\<close>

record PartialPosition =
  top_px :: real
  left_px :: real

record Position = PartialPosition +
  width_px :: real
  height_px :: real

text \<open>
  The \<open>size\<close> object of a resize event. The gesture library proposes \<open>{width, height}\<close>;
  the direction resolver returns an object that may also carry \<open>top\<close> and \<open>left\<close>. Both
  shapes flow through the same variable \<open>updatedSize\<close>, so \<open>top\<close> and \<open>left\<close> are optional
  here. \<open>spread position updatedSize\<close> is the object spread
  \<open>{ ...position, ...updatedSize }\<close>: a field of \<open>updatedSize\<close> wins where it is present.
  The handler's parameter \<open>size\<close> is written \<open>size0\<close> below, \<open>size\<close> being a constant of
  HOL.
\<close>

record Size =
  size_top :: "real option"
  size_left :: "real option"
  size_width :: real
  size_height :: real

definition spread :: "Position \<Rightarrow> Size \<Rightarrow> Position" where
  "spread position updatedSize =
     \<lparr>top_px = (case size_top updatedSize of Some t \<Rightarrow> t | None \<Rightarrow> top_px position),
      left_px = (case size_left updatedSize of Some l \<Rightarrow> l | None \<Rightarrow> left_px position),
      width_px = size_width updatedSize,
      height_px = size_height updatedSize\<rparr>"

datatype ResizeHandleAxis =
  Axis_s | Axis_w | Axis_e | Axis_n | Axis_sw | Axis_nw | Axis_se | Axis_ne

text \<open>
  The DOM as the handlers read it: a snapshot taken when the event is delivered. A node is
  an element together with its \<open>offsetParent\<close>, which is \<open>None\<close> when the node has no
  positioned ancestor.
\<close>

record DOMRect =
  rect_left :: real
  rect_top :: real

record Element =
  getBoundingClientRect :: DOMRect
  scrollLeft :: real
  scrollTop :: real
  clientHeight :: real

record Node = Element +
  offsetParent :: "Element option"

text \<open>
  The props. \<open>DefaultProps\<close> has the eight fields of the source's type of that name, and
  \<open>Props\<close> extends it with the fields the handlers read (the props that only \<open>render\<close>
  reads are left out). Renamed: \<open>handle\<close> (the drag handle's selector) is \<open>handle_sel\<close>,
  since \<open>handle\<close> names the resize handle in \<open>onResizeHandler\<close>; \<open>x, y, w, h, i\<close> are
  \<open>item_x\<close> ... \<open>item_i\<close>; a callback slot \<open>onDrag\<close> is \<open>onDrag_cb\<close>, true when the host
  registered the callback.
\<close>

record DefaultProps =
  className :: string
  cancel :: string
  handle_sel :: string
  minH :: num
  minW :: num
  maxH :: num
  maxW :: num
  transformScale :: real

record 'e DroppingPosition = PartialPosition +
  dropping_e :: 'e

record 'e Props = DefaultProps +
  cols :: real
  containerWidth :: real
  margin :: "real \<times> real"
  containerPadding :: "real \<times> real"
  rowHeight :: real
  maxRows :: num
  isBounded :: bool
  droppingPosition :: "'e DroppingPosition option"
  item_x :: real
  item_y :: real
  item_w :: real
  item_h :: real
  item_i :: string
  onDrag_cb :: bool
  onDragStart_cb :: bool
  onDragStop_cb :: bool
  onResize_cb :: bool
  onResizeStart_cb :: bool
  onResizeStop_cb :: bool

definition defaultProps :: DefaultProps where
  "defaultProps =
     \<lparr>className = '''', cancel = '''', handle_sel = '''',
      minH = Finite 1, minW = Finite 1, maxH = Infinity, maxW = Infinity,
      transformScale = 1\<rparr>"

record PositionParams =
  pp_cols :: real
  pp_containerPadding :: "real \<times> real"
  pp_containerWidth :: real
  pp_margin :: "real \<times> real"
  pp_maxRows :: num
  pp_rowHeight :: real

definition getPositionParams :: "'e Props \<Rightarrow> PositionParams" where
  "getPositionParams props =
     \<lparr>pp_cols = cols props,
      pp_containerPadding = containerPadding props,
      pp_containerWidth = containerWidth props,
      pp_margin = margin props,
      pp_maxRows = maxRows props,
      pp_rowHeight = rowHeight props\<rparr>"

text \<open>
  The helpers imported from \<open>./utils\<close> and \<open>./calculateUtils\<close> are not among the sources.
  The handlers take them as a parameter, so every theorem below holds for any
  implementation of them.
\<close>

record Utils =
  calcXY :: "PositionParams \<Rightarrow> real \<Rightarrow> real \<Rightarrow> real \<Rightarrow> real \<Rightarrow> real \<times> real"
  calcWH :: "PositionParams \<Rightarrow> real \<Rightarrow> real \<Rightarrow> real \<Rightarrow> real \<Rightarrow> ResizeHandleAxis \<Rightarrow> num \<times> num"
  calcGridItemWHPx :: "real \<Rightarrow> real \<Rightarrow> real \<Rightarrow> real"
  calcGridColWidth :: "PositionParams \<Rightarrow> real"
  resizeItemInDirection :: "ResizeHandleAxis \<Rightarrow> Position \<Rightarrow> Size \<Rightarrow> real \<Rightarrow> Size"

text \<open>
  The instance fields of a \<open>GridItem\<close>. \<open>dragging\<close> and \<open>resizing\<close> are never initialised
  by the source, so they start out undefined, which is falsy: \<open>False\<close> and \<open>None\<close>.
  \<open>resizing\<close> holds the live override box or null; \<open>elementRef\<close> is \<open>elementRef.current\<close>.
\<close>

record GridItem =
  dragPosition :: PartialPosition
  resizePosition :: Position
  dragging :: bool
  resizing :: "Size option"
  elementRef :: "Node option"

definition initialGridItem :: GridItem where
  "initialGridItem =
     \<lparr>dragPosition = \<lparr>top_px = 0, left_px = 0\<rparr>,
      resizePosition = \<lparr>top_px = 0, left_px = 0, width_px = 0, height_px = 0\<rparr>,
      dragging = False,
      resizing = None,
      elementRef = None\<rparr>"

text \<open>
  What a handler does to the outside: it throws, or it returns after calling at most one
  callback of the host. A call is recorded with its arguments: the callback's name, the
  item id, two grid numbers and the payload \<open>{e, node, newPosition}\<close> or
  \<open>{e, node, size, handle}\<close>.
\<close>

datatype Error = Error string

datatype DragCallback = OnDragStart | OnDrag | OnDragStop

datatype HandlerName = OnResizeStop | OnResizeStart | OnResize

datatype 'e GridDragEvent = GridDragEvent 'e Node PartialPosition

datatype 'e GridResizeEvent = GridResizeEvent 'e "Node option" Size ResizeHandleAxis

datatype 'e Notification =
  DragCall DragCallback string real real "'e GridDragEvent"
| ResizeCall HandlerName string num num "'e GridResizeEvent"

type_synonym 'e Outcome = "Error + GridItem \<times> 'e Notification option"

section \<open>The drag handlers\<close>

text \<open>
  Each of the three drag handlers ends by converting a pixel position to grid coordinates
  with \<open>calcXY\<close> and calling its callback with \<open>(i, x, y, {e, node, newPosition})\<close>;
  \<open>dragCall\<close> is that call.
\<close>

definition dragCall ::
  "Utils \<Rightarrow> 'e Props \<Rightarrow> DragCallback \<Rightarrow> 'e \<Rightarrow> Node \<Rightarrow> PartialPosition \<Rightarrow> 'e Notification" where
  "dragCall utils props callback e node newPosition =
     (let xy = calcXY utils (getPositionParams props)
                 (top_px newPosition) (left_px newPosition) (item_w props) (item_h props)
      in DragCall callback (item_i props) (fst xy) (snd xy) (GridDragEvent e node newPosition))"

definition onDragStart ::
  "Utils \<Rightarrow> 'e Props \<Rightarrow> GridItem \<Rightarrow> 'e \<Rightarrow> Node \<Rightarrow> 'e Outcome" where
  "onDragStart utils props this e node =
     (if \<not> onDragStart_cb props then Inr (this, None)
      else case offsetParent node of
        None \<Rightarrow> Inr (this, None)
      | Some parent \<Rightarrow>
          let parentRect = getBoundingClientRect parent;
              clientRect = getBoundingClientRect node;
              cLeft = rect_left clientRect / transformScale props;
              pLeft = rect_left parentRect / transformScale props;
              cTop = rect_top clientRect / transformScale props;
              pTop = rect_top parentRect / transformScale props;
              newPosition = \<lparr>top_px = cTop - pTop + scrollTop parent,
                             left_px = cLeft - pLeft + scrollLeft parent\<rparr>
          in Inr (this\<lparr>dragPosition := newPosition, dragging := True\<rparr>,
                  Some (dragCall utils props OnDragStart e node newPosition)))"

text \<open>
  The two boundaries of a bounded drag, as \<open>onDrag\<close> computes them: the ancestor's client
  height less the item's pixel height, and the container width less the item's pixel
  width. In \<open>onDrag\<close> the variables \<open>top\<close> and \<open>left\<close> before the boundary block are
  \<open>top0\<close> and \<open>left0\<close>; \<open>newPosition\<close> holds their values after it.
\<close>

definition bottomBoundary :: "Utils \<Rightarrow> 'e Props \<Rightarrow> Element \<Rightarrow> real" where
  "bottomBoundary utils props parent =
     clientHeight parent
       - calcGridItemWHPx utils (item_h props) (rowHeight props) (snd (margin props))"

definition rightBoundary :: "Utils \<Rightarrow> 'e Props \<Rightarrow> real" where
  "rightBoundary utils props =
     (let colWidth = calcGridColWidth utils (getPositionParams props)
      in containerWidth props
           - calcGridItemWHPx utils (item_w props) colWidth (fst (margin props)))"

definition onDrag ::
  "Utils \<Rightarrow> 'e Props \<Rightarrow> GridItem \<Rightarrow> 'e \<Rightarrow> Node \<Rightarrow> real \<Rightarrow> real \<Rightarrow> 'e Outcome" where
  "onDrag utils props this e node deltaX deltaY =
     (if \<not> onDrag_cb props then Inr (this, None)
      else if \<not> dragging this then Inl (Error ''onDrag called before onDragStart.'')
      else
        let top0 = top_px (dragPosition this) + deltaY;
            left0 = left_px (dragPosition this) + deltaX;
            newPosition =
              (if isBounded props then
                 (case offsetParent node of
                    Some parent \<Rightarrow>
                      \<lparr>top_px = clamp (top0 - snd (containerPadding props)) 0
                                  (bottomBoundary utils props parent),
                       left_px = clamp (left0 - fst (containerPadding props)) 0
                                   (rightBoundary utils props)\<rparr>
                  | None \<Rightarrow> \<lparr>top_px = top0, left_px = left0\<rparr>)
               else \<lparr>top_px = top0, left_px = left0\<rparr>)
        in Inr (this\<lparr>dragPosition := newPosition\<rparr>,
                Some (dragCall utils props OnDrag e node newPosition)))"

definition onDragStop ::
  "Utils \<Rightarrow> 'e Props \<Rightarrow> GridItem \<Rightarrow> 'e \<Rightarrow> Node \<Rightarrow> 'e Outcome" where
  "onDragStop utils props this e node =
     (if \<not> onDragStop_cb props then Inr (this, None)
      else if \<not> dragging this then Inl (Error ''onDragEnd called before onDragStart.'')
      else
        let newPosition = \<lparr>top_px = top_px (dragPosition this),
                           left_px = left_px (dragPosition this)\<rparr>
        in Inr (this\<lparr>dragging := False, dragPosition := \<lparr>top_px = 0, left_px = 0\<rparr>\<rparr>,
                Some (dragCall utils props OnDragStop e node newPosition)))"

section \<open>The resize handlers\<close>

text \<open>
  \<open>this.props[handlerName]\<close>, for the three names the component passes. In
  \<open>onResizeHandler\<close> the pair \<open>su\<close> is what the block \<open>if (node) { ... }\<close> leaves behind:
  the value of \<open>updatedSize\<close> and the instance with \<open>resizing\<close> written.
\<close>

fun propsHandler :: "'e Props \<Rightarrow> HandlerName \<Rightarrow> bool" where
  "propsHandler props OnResizeStop = onResizeStop_cb props"
| "propsHandler props OnResizeStart = onResizeStart_cb props"
| "propsHandler props OnResize = onResize_cb props"

definition onResizeHandler ::
  "Utils \<Rightarrow> 'e Props \<Rightarrow> GridItem \<Rightarrow> 'e \<Rightarrow> Node option \<Rightarrow> Size \<Rightarrow> ResizeHandleAxis
     \<Rightarrow> Position \<Rightarrow> HandlerName \<Rightarrow> 'e Outcome" where
  "onResizeHandler utils props this e node size0 handle position handlerName =
     (if \<not> propsHandler props handlerName then Inr (this, None)
      else
        let su = (if node \<noteq> None then
                    let updatedSize =
                          resizeItemInDirection utils handle position size0 (containerWidth props)
                    in (updatedSize,
                        this\<lparr>resizing :=
                          (if handlerName = OnResizeStop then None else Some updatedSize)\<rparr>)
                  else (size0, this));
            updatedSize = fst su;
            this1 = snd su;
            wh = calcWH utils (getPositionParams props)
                   (size_width updatedSize) (size_height updatedSize)
                   (item_x props) (item_y props) handle;
            w = clamp (fst wh) (max (minW props) (Finite 1)) (maxW props);
            h = clamp (snd wh) (minH props) (maxH props);
            this2 = this1\<lparr>resizePosition := spread position updatedSize\<rparr>
        in Inr (this2,
                Some (ResizeCall handlerName (item_i props) w h
                        (GridResizeEvent e node updatedSize handle))))"

definition onResizeStop ::
  "Utils \<Rightarrow> 'e Props \<Rightarrow> GridItem \<Rightarrow> 'e \<Rightarrow> Node option \<Rightarrow> Size \<Rightarrow> ResizeHandleAxis
     \<Rightarrow> Position \<Rightarrow> 'e Outcome" where
  "onResizeStop utils props this e node size0 handle position =
     onResizeHandler utils props this e node size0 handle position OnResizeStop"

definition onResizeStart ::
  "Utils \<Rightarrow> 'e Props \<Rightarrow> GridItem \<Rightarrow> 'e \<Rightarrow> Node option \<Rightarrow> Size \<Rightarrow> ResizeHandleAxis
     \<Rightarrow> Position \<Rightarrow> 'e Outcome" where
  "onResizeStart utils props this e node size0 handle position =
     onResizeHandler utils props this e node size0 handle position OnResizeStart"

definition onResize ::
  "Utils \<Rightarrow> 'e Props \<Rightarrow> GridItem \<Rightarrow> 'e \<Rightarrow> Node option \<Rightarrow> Size \<Rightarrow> ResizeHandleAxis
     \<Rightarrow> Position \<Rightarrow> 'e Outcome" where
  "onResize utils props this e node size0 handle position =
     onResizeHandler utils props this e node size0 handle position OnResize"

section \<open>The external move injector\<close>

text \<open>
  \<open>moveDroppingItem(prevProps)\<close> reads one field of its argument,
  \<open>prevProps.droppingPosition\<close>, which is what the model takes: \<open>componentDidMount\<close>
  passes \<open>{}\<close>, where the field is absent. The \<open>deltaX\<close> and \<open>deltaY\<close> handed to
  \<open>onDragStart\<close> are not read by it.
\<close>

definition moveDroppingItem ::
  "Utils \<Rightarrow> 'e Props \<Rightarrow> GridItem \<Rightarrow> 'e DroppingPosition option \<Rightarrow> 'e Outcome" where
  "moveDroppingItem utils props this prevProps_droppingPosition =
     (case droppingPosition props of
        None \<Rightarrow> Inr (this, None)
      | Some dropping \<Rightarrow>
          (case elementRef this of
             None \<Rightarrow> Inr (this, None)
           | Some node \<Rightarrow>
               let prevDroppingPosition =
                     (case prevProps_droppingPosition of
                        Some prev \<Rightarrow> \<lparr>top_px = top_px prev, left_px = left_px prev\<rparr>
                      | None \<Rightarrow> \<lparr>top_px = 0, left_px = 0\<rparr>);
                   shouldDrag =
                     ((dragging this \<and> left_px dropping \<noteq> left_px prevDroppingPosition)
                      \<or> top_px dropping \<noteq> top_px prevDroppingPosition)
               in if \<not> dragging this then
                    onDragStart utils props this (dropping_e dropping) node
                  else if shouldDrag then
                    let deltaX = left_px dropping - left_px (dragPosition this);
                        deltaY = top_px dropping - top_px (dragPosition this)
                    in onDrag utils props this (dropping_e dropping) node deltaX deltaY
                  else Inr (this, None)))"

definition componentDidMount :: "Utils \<Rightarrow> 'e Props \<Rightarrow> GridItem \<Rightarrow> 'e Outcome" where
  "componentDidMount utils props this = moveDroppingItem utils props this None"

definition componentDidUpdate ::
  "Utils \<Rightarrow> 'e Props \<Rightarrow> GridItem \<Rightarrow> 'e Props \<Rightarrow> 'e Outcome" where
  "componentDidUpdate utils props this prevProps =
     moveDroppingItem utils props this (droppingPosition prevProps)"

section \<open>Runs of move events\<close>

text \<open>
  The gesture layer delivers the move events of one gesture in order, each to \<open>onDrag\<close>
  with the state the previous one left; a throw ends the run. The run returns the state
  after the last event.
\<close>

fun onDragMoves ::
  "Utils \<Rightarrow> 'e Props \<Rightarrow> GridItem \<Rightarrow> 'e \<Rightarrow> Node \<Rightarrow> (real \<times> real) list \<Rightarrow> Error + GridItem" where
  "onDragMoves utils props this e node [] = Inr this"
| "onDragMoves utils props this e node ((deltaX, deltaY) # deltas) =
     (case onDrag utils props this e node deltaX deltaY of
        Inl err \<Rightarrow> Inl err
      | Inr (this1, notification) \<Rightarrow> onDragMoves utils props this1 e node deltas)"

section \<open>Concrete inputs\<close>

text \<open>
  The inputs at which the theorems below are instantiated. The grid parameters are those
  of Scenario A of the specification: 12 columns, a container 1200 pixels wide, margins
  and padding of 10 pixels, rows of 30 pixels; the item spans 2 columns and 1 row, bounded
  mode is on and every callback is registered. The node sits 50 pixels right of and 50
  pixels below its positioned ancestor (Scenario B).

  \<open>sampleUtils\<close> stands in for the helper modules at these inputs only: column width and
  item pixel size by the placement formulas of section 4.1, the grid conversions without
  rounding, and a resolver that keeps the anchor's top left corner. No theorem depends on
  this choice.
\<close>

definition sampleUtils :: Utils where
  "sampleUtils =
     \<lparr>calcXY = (\<lambda>pp top left w h.
        (left / (pp_containerWidth pp / pp_cols pp), top / pp_rowHeight pp)),
      calcWH = (\<lambda>pp width height x y handle.
        (Finite (width / (pp_containerWidth pp / pp_cols pp)),
         Finite (height / pp_rowHeight pp))),
      calcGridItemWHPx = (\<lambda>gridUnits colOrRowSize marginPx.
        gridUnits * colOrRowSize + (gridUnits - 1) * marginPx),
      calcGridColWidth = (\<lambda>pp.
        (pp_containerWidth pp - fst (pp_margin pp) * (pp_cols pp - 1)
           - fst (pp_containerPadding pp) * 2) / pp_cols pp),
      resizeItemInDirection = (\<lambda>handle position size0 containerWidth.
        size0\<lparr>size_top := Some (top_px position), size_left := Some (left_px position)\<rparr>)\<rparr>"

definition sampleProps :: "string Props" where
  "sampleProps =
     \<lparr>className = '''', cancel = '''', handle_sel = '''',
      minH = Finite 1, minW = Finite 1, maxH = Infinity, maxW = Infinity,
      transformScale = 1,
      cols = 12, containerWidth = 1200, margin = (10, 10), containerPadding = (10, 10),
      rowHeight = 30, maxRows = Infinity, isBounded = True, droppingPosition = None,
      item_x = 0, item_y = 0, item_w = 2, item_h = 1, item_i = ''a'',
      onDrag_cb = True, onDragStart_cb = True, onDragStop_cb = True,
      onResize_cb = True, onResizeStart_cb = True, onResizeStop_cb = True\<rparr>"

definition sampleParent :: Element where
  "sampleParent =
     \<lparr>getBoundingClientRect = \<lparr>rect_left = 100, rect_top = 200\<rparr>,
      scrollLeft = 0, scrollTop = 0, clientHeight = 600\<rparr>"

definition sampleNode :: Node where
  "sampleNode =
     \<lparr>getBoundingClientRect = \<lparr>rect_left = 150, rect_top = 250\<rparr>,
      scrollLeft = 0, scrollTop = 0, clientHeight = 30,
      offsetParent = Some sampleParent\<rparr>"

definition draggingAt :: "real \<Rightarrow> real \<Rightarrow> GridItem" where
  "draggingAt t l =
     initialGridItem\<lparr>dragPosition := \<lparr>top_px = t, left_px = l\<rparr>, dragging := True,
       elementRef := Some sampleNode\<rparr>"

definition sampleSize :: Size where
  "sampleSize = \<lparr>size_top = None, size_left = None, size_width = 150, size_height = 60\<rparr>"

definition samplePosition :: Position where
  "samplePosition = \<lparr>top_px = 100, left_px = 100, width_px = 200, height_px = 30\<rparr>"

definition sampleDropping :: "real \<Rightarrow> real \<Rightarrow> string DroppingPosition" where
  "sampleDropping t l = \<lparr>top_px = t, left_px = l, dropping_e = ''dragover''\<rparr>"

definition droppingProps :: "real \<Rightarrow> real \<Rightarrow> string Props" where
  "droppingProps t l =
     sampleProps\<lparr>isBounded := False, droppingPosition := Some (sampleDropping t l)\<rparr>"

definition smallParent :: Element where
  "smallParent = sampleParent\<lparr>clientHeight := 20\<rparr>"

section \<open>Auxiliary facts\<close>

lemma clamp_between: "lo \<le> hi \<Longrightarrow> lo \<le> clamp v lo hi \<and> clamp v lo hi \<le> hi"
  by (simp add: clamp_def)

lemma clamp_zero_again:
  fixes v p b :: real
  assumes "0 < p"
  shows "(clamp (clamp v 0 b - p) 0 b \<noteq> clamp v 0 b) = (0 < clamp v 0 b)"
  using assms by (auto simp: clamp_def max_def min_def)

lemma PartialPosition_eta:
  "\<lparr>top_px = top_px (p::PartialPosition), left_px = left_px p\<rparr> = p"
  by (cases p) simp

text \<open>
  One processed move event in bounded mode: the callback is registered, the accumulator
  is dragging and the node has an \<open>offsetParent\<close>.
\<close>

lemma onDrag_bounded_step:
  assumes "onDrag_cb props" and "dragging this" and "isBounded props"
    and "offsetParent node = Some parent"
  shows "onDrag utils props this e node deltaX deltaY =
     Inr (this\<lparr>dragPosition :=
             \<lparr>top_px = clamp (top_px (dragPosition this) + deltaY - snd (containerPadding props))
                         0 (bottomBoundary utils props parent),
              left_px = clamp (left_px (dragPosition this) + deltaX - fst (containerPadding props))
                          0 (rightBoundary utils props)\<rparr>\<rparr>,
          Some (dragCall utils props OnDrag e node
             \<lparr>top_px = clamp (top_px (dragPosition this) + deltaY - snd (containerPadding props))
                         0 (bottomBoundary utils props parent),
              left_px = clamp (left_px (dragPosition this) + deltaX - fst (containerPadding props))
                          0 (rightBoundary utils props)\<rparr>))"
  using assms by (simp add: onDrag_def Let_def)

section \<open>Resize events and the callback slots\<close>

text \<open>
  C1 (as amended). The specification asks that a resize event whose callback is not
  registered still update the state and skip only the notification. The handler does the
  opposite: its first statement returns when \<open>this.props[handlerName]\<close> is absent, so
  the state is left as it was and nothing is emitted. With the callback registered and a
  node present, the direction-corrected box becomes the live override (cleared on
  \<open>onResizeStop\<close>), \<open>resizePosition\<close> becomes the corrected box merged over the anchor,
  and the callback is called.
\<close>

theorem onResizeHandler_callback_gate:
  "(\<not> propsHandler props handlerName \<longrightarrow>
      onResizeHandler utils props this e node size0 handle position handlerName
        = Inr (this, None))
   \<and> (propsHandler props handlerName \<longrightarrow>
        onResizeHandler utils props this e (Some n) size0 handle position handlerName =
          Inr (this\<lparr>resizing :=
                  (if handlerName = OnResizeStop then None
                   else Some (resizeItemInDirection utils handle position size0
                                (containerWidth props))),
                resizePosition :=
                  spread position
                    (resizeItemInDirection utils handle position size0 (containerWidth props))\<rparr>,
               Some (ResizeCall handlerName (item_i props)
                 (clamp (fst (calcWH utils (getPositionParams props)
                      (size_width (resizeItemInDirection utils handle position size0
                                     (containerWidth props)))
                      (size_height (resizeItemInDirection utils handle position size0
                                     (containerWidth props)))
                      (item_x props) (item_y props) handle))
                    (max (minW props) (Finite 1)) (maxW props))
                 (clamp (snd (calcWH utils (getPositionParams props)
                      (size_width (resizeItemInDirection utils handle position size0
                                     (containerWidth props)))
                      (size_height (resizeItemInDirection utils handle position size0
                                     (containerWidth props)))
                      (item_x props) (item_y props) handle))
                    (minH props) (maxH props))
                 (GridResizeEvent e (Some n)
                    (resizeItemInDirection utils handle position size0 (containerWidth props))
                    handle))))"
  by (simp add: onResizeHandler_def Let_def)

text \<open>
  Both branches at the concrete inputs: a resize start without its callback changes
  nothing; a resize stop with its callback clears the override and stores the merged box.
\<close>

theorem onResizeHandler_callback_gate_witness:
  "\<not> propsHandler (sampleProps\<lparr>onResizeStart_cb := False\<rparr>) OnResizeStart
   \<and> onResizeHandler sampleUtils (sampleProps\<lparr>onResizeStart_cb := False\<rparr>) initialGridItem
        ''mousedown'' (Some sampleNode) sampleSize Axis_se samplePosition OnResizeStart
      = Inr (initialGridItem, None)
   \<and> propsHandler sampleProps OnResizeStop
   \<and> onResizeHandler sampleUtils sampleProps
        (initialGridItem\<lparr>resizing := Some sampleSize\<rparr>)
        ''mouseup'' (Some sampleNode) sampleSize Axis_se samplePosition OnResizeStop
      = Inr (initialGridItem\<lparr>resizePosition :=
                \<lparr>top_px = 100, left_px = 100, width_px = 150, height_px = 60\<rparr>\<rparr>,
             Some (ResizeCall OnResizeStop ''a'' (Finite (3/2)) (Finite 2)
                  (GridResizeEvent ''mouseup'' (Some sampleNode)
                     \<lparr>size_top = Some 100, size_left = Some 100,
                      size_width = 150, size_height = 60\<rparr> Axis_se)))"
  using onResizeHandler_callback_gate[of "sampleProps\<lparr>onResizeStart_cb := False\<rparr>"
      OnResizeStart sampleUtils initialGridItem "''mousedown''" "Some sampleNode" sampleSize
      Axis_se samplePosition]
    onResizeHandler_callback_gate[of sampleProps OnResizeStop sampleUtils
      "initialGridItem\<lparr>resizing := Some sampleSize\<rparr>" "''mouseup''" "Some sampleNode"
      sampleSize Axis_se samplePosition sampleNode]
  by (simp add: sampleProps_def sampleSize_def samplePosition_def sampleUtils_def
      getPositionParams_def clamp_def initialGridItem_def spread_def)

text \<open>
  The claim as the specification has it fails. A resize move arrives with a node while
  \<open>onResize\<close> is not registered: the state is unchanged, so the override is still absent
  and not the corrected box, and \<open>resizePosition\<close> is not the merged box. A resize stop
  arrives while \<open>onResizeStop\<close> is not registered: the override is not cleared.
\<close>

theorem onResizeHandler_no_callback_counterexample:
  "\<not> propsHandler (sampleProps\<lparr>onResize_cb := False\<rparr>) OnResize
   \<and> onResizeHandler sampleUtils (sampleProps\<lparr>onResize_cb := False\<rparr>) initialGridItem
        ''mousemove'' (Some sampleNode) sampleSize Axis_se samplePosition OnResize
      = Inr (initialGridItem, None)
   \<and> resizing initialGridItem
        \<noteq> Some (resizeItemInDirection sampleUtils Axis_se samplePosition sampleSize
                  (containerWidth (sampleProps\<lparr>onResize_cb := False\<rparr>)))
   \<and> resizePosition initialGridItem
        \<noteq> spread samplePosition
            (resizeItemInDirection sampleUtils Axis_se samplePosition sampleSize
               (containerWidth (sampleProps\<lparr>onResize_cb := False\<rparr>)))
   \<and> \<not> propsHandler (sampleProps\<lparr>onResizeStop_cb := False\<rparr>) OnResizeStop
   \<and> onResizeHandler sampleUtils (sampleProps\<lparr>onResizeStop_cb := False\<rparr>)
        (initialGridItem\<lparr>resizing := Some sampleSize\<rparr>)
        ''mouseup'' (Some sampleNode) sampleSize Axis_se samplePosition OnResizeStop
      = Inr (initialGridItem\<lparr>resizing := Some sampleSize\<rparr>, None)
   \<and> resizing (initialGridItem\<lparr>resizing := Some sampleSize\<rparr>) \<noteq> None"
  by (simp add: onResizeHandler_def sampleProps_def initialGridItem_def spread_def
      sampleUtils_def sampleSize_def samplePosition_def)

section \<open>Events out of sequence\<close>

text \<open>
  C2 (as amended). A drag move or a drag stop delivered while the accumulator is not
  dragging throws, and the throw reaches the caller, provided the callback of the event
  (\<open>onDrag\<close>, \<open>onDragStop\<close>) is registered: the test for the callback comes first, and
  without the callback the handler returns silently with the state unchanged. A resize
  event never throws, whatever the state: \<open>onResizeHandler\<close> has no sequence check.
\<close>

theorem invalid_sequence_errors:
  "(onDrag_cb props \<and> \<not> dragging this \<longrightarrow>
      onDrag utils props this e node deltaX deltaY
        = Inl (Error ''onDrag called before onDragStart.''))
   \<and> (onDragStop_cb props \<and> \<not> dragging this \<longrightarrow>
      onDragStop utils props this e node
        = Inl (Error ''onDragEnd called before onDragStart.''))
   \<and> (\<not> onDrag_cb props \<longrightarrow>
      onDrag utils props this e node deltaX deltaY = Inr (this, None))
   \<and> (\<not> onDragStop_cb props \<longrightarrow>
      onDragStop utils props this e node = Inr (this, None))
   \<and> \<not> isl (onResizeHandler utils props this e rnode size0 handle position handlerName)"
  by (simp add: onDrag_def onDragStop_def onResizeHandler_def Let_def)

theorem invalid_sequence_errors_witness:
  "onDrag_cb sampleProps \<and> \<not> dragging initialGridItem
   \<and> onDrag sampleUtils sampleProps initialGridItem ''mousemove'' sampleNode 5 5
       = Inl (Error ''onDrag called before onDragStart.'')
   \<and> onDragStop_cb sampleProps
   \<and> onDragStop sampleUtils sampleProps initialGridItem ''mouseup'' sampleNode
       = Inl (Error ''onDragEnd called before onDragStart.'')
   \<and> \<not> onDrag_cb (sampleProps\<lparr>onDrag_cb := False\<rparr>)
   \<and> onDrag sampleUtils (sampleProps\<lparr>onDrag_cb := False\<rparr>) initialGridItem
        ''mousemove'' sampleNode 5 5 = Inr (initialGridItem, None)
   \<and> \<not> onDragStop_cb (sampleProps\<lparr>onDragStop_cb := False\<rparr>)
   \<and> onDragStop sampleUtils (sampleProps\<lparr>onDragStop_cb := False\<rparr>) initialGridItem
        ''mouseup'' sampleNode = Inr (initialGridItem, None)"
  using invalid_sequence_errors[of sampleProps initialGridItem sampleUtils "''mousemove''"
      sampleNode 5 5]
    invalid_sequence_errors[of sampleProps initialGridItem sampleUtils "''mouseup''" sampleNode]
    invalid_sequence_errors[of "sampleProps\<lparr>onDrag_cb := False\<rparr>" initialGridItem sampleUtils
      "''mousemove''" sampleNode 5 5]
    invalid_sequence_errors[of "sampleProps\<lparr>onDragStop_cb := False\<rparr>" initialGridItem
      sampleUtils "''mouseup''" sampleNode]
  by (simp add: sampleProps_def initialGridItem_def)

text \<open>
  The claim as the specification has it fails. On a fresh item, neither dragging nor
  resizing, a resize move returns normally with a notification; a drag move and a drag
  stop whose callbacks are not registered return normally too.
\<close>

theorem idle_events_counterexample:
  "resizing initialGridItem = None \<and> \<not> dragging initialGridItem
   \<and> onResizeHandler sampleUtils sampleProps initialGridItem ''mousemove'' (Some sampleNode)
        sampleSize Axis_se samplePosition OnResize
      = Inr (initialGridItem\<lparr>resizing := Some \<lparr>size_top = Some 100, size_left = Some 100,
                  size_width = 150, size_height = 60\<rparr>,
                resizePosition :=
                  \<lparr>top_px = 100, left_px = 100, width_px = 150, height_px = 60\<rparr>\<rparr>,
             Some (ResizeCall OnResize ''a'' (Finite (3/2)) (Finite 2)
                  (GridResizeEvent ''mousemove'' (Some sampleNode)
                     \<lparr>size_top = Some 100, size_left = Some 100,
                      size_width = 150, size_height = 60\<rparr> Axis_se)))
   \<and> onDrag sampleUtils (sampleProps\<lparr>onDrag_cb := False\<rparr>) initialGridItem
        ''mousemove'' sampleNode 5 5 = Inr (initialGridItem, None)
   \<and> onDragStop sampleUtils (sampleProps\<lparr>onDragStop_cb := False\<rparr>) initialGridItem
        ''mouseup'' sampleNode = Inr (initialGridItem, None)"
  by (simp add: onResizeHandler_def onDrag_def onDragStop_def Let_def sampleProps_def
      sampleSize_def samplePosition_def sampleUtils_def getPositionParams_def clamp_def
      initialGridItem_def spread_def)

section \<open>The external move injector\<close>

text \<open>
  C3 (as amended). When a dropping position is supplied, the element reference is
  resolved, the accumulator is dragging and the dropping position differs (in \<open>left\<close> or
  \<open>top\<close>) from that of the previous render, \<open>moveDroppingItem\<close> calls \<open>onDrag\<close> with
  the new dropping position minus the accumulator's current \<open>dragPosition\<close>. The previous
  dropping position decides only whether the call is made, not the deltas.
\<close>

theorem moveDroppingItem_drag_delta:
  assumes "droppingPosition props = Some dropping" and "elementRef this = Some node"
    and "dragging this"
    and "left_px dropping \<noteq> (case prev of Some p \<Rightarrow> left_px p | None \<Rightarrow> 0)
         \<or> top_px dropping \<noteq> (case prev of Some p \<Rightarrow> top_px p | None \<Rightarrow> 0)"
  shows "moveDroppingItem utils props this prev =
           onDrag utils props this (dropping_e dropping) node
             (left_px dropping - left_px (dragPosition this))
             (top_px dropping - top_px (dragPosition this))"
  using assms by (auto simp: moveDroppingItem_def Let_def split: option.splits)

theorem moveDroppingItem_drag_delta_witness:
  "droppingPosition (droppingProps 5 5) = Some (sampleDropping 5 5)
   \<and> elementRef (draggingAt 50 50) = Some sampleNode
   \<and> dragging (draggingAt 50 50)
   \<and> left_px (sampleDropping 5 5) \<noteq> left_px (sampleDropping 0 0)
   \<and> moveDroppingItem sampleUtils (droppingProps 5 5) (draggingAt 50 50)
        (Some (sampleDropping 0 0))
       = onDrag sampleUtils (droppingProps 5 5) (draggingAt 50 50) ''dragover'' sampleNode
           (- 45) (- 45)"
  using moveDroppingItem_drag_delta[of "droppingProps 5 5" "sampleDropping 5 5"
      "draggingAt 50 50" sampleNode "Some (sampleDropping 0 0)" sampleUtils]
  by (simp add: droppingProps_def sampleProps_def sampleDropping_def draggingAt_def
      initialGridItem_def)

text \<open>
  The claim as the specification has it fails on the second render of an external drag.
  The first render supplies the dropping position \<open>(0, 0)\<close>: the item is idle, so a drag
  start is synthesised and the accumulator takes the node's offset \<open>(50, 50)\<close>. The second
  render supplies \<open>(5, 5)\<close>: the synthesised move has the deltas \<open>(-45, -45)\<close> and leaves
  the accumulator at \<open>(5, 5)\<close>, whereas a move by the difference of the two dropping
  positions, \<open>(5, 5)\<close>, would leave it at \<open>(55, 55)\<close>.
\<close>

theorem moveDroppingItem_delta_counterexample:
  "moveDroppingItem sampleUtils (droppingProps 0 0)
      (initialGridItem\<lparr>elementRef := Some sampleNode\<rparr>) None
     = Inr (draggingAt 50 50,
            Some (DragCall OnDragStart ''a'' (1/2) (5/3)
                    (GridDragEvent ''dragover'' sampleNode \<lparr>top_px = 50, left_px = 50\<rparr>)))
   \<and> droppingPosition (droppingProps 5 5) = Some (sampleDropping 5 5)
   \<and> dragging (draggingAt 50 50)
   \<and> left_px (sampleDropping 5 5) \<noteq> left_px (sampleDropping 0 0)
   \<and> moveDroppingItem sampleUtils (droppingProps 5 5) (draggingAt 50 50)
        (Some (sampleDropping 0 0))
       = Inr (draggingAt 5 5,
              Some (DragCall OnDrag ''a'' (1/20) (1/6)
                      (GridDragEvent ''dragover'' sampleNode \<lparr>top_px = 5, left_px = 5\<rparr>)))
   \<and> onDrag sampleUtils (droppingProps 5 5) (draggingAt 50 50) ''dragover'' sampleNode
         (left_px (sampleDropping 5 5) - left_px (sampleDropping 0 0))
         (top_px (sampleDropping 5 5) - top_px (sampleDropping 0 0))
       = Inr (draggingAt 55 55,
              Some (DragCall OnDrag ''a'' (11/20) (11/6)
                      (GridDragEvent ''dragover'' sampleNode \<lparr>top_px = 55, left_px = 55\<rparr>)))
   \<and> moveDroppingItem sampleUtils (droppingProps 5 5) (draggingAt 50 50)
        (Some (sampleDropping 0 0))
       \<noteq> onDrag sampleUtils (droppingProps 5 5) (draggingAt 50 50) ''dragover'' sampleNode
           (left_px (sampleDropping 5 5) - left_px (sampleDropping 0 0))
           (top_px (sampleDropping 5 5) - top_px (sampleDropping 0 0))"
  by (simp add: moveDroppingItem_def onDragStart_def onDrag_def Let_def droppingProps_def
      sampleProps_def sampleDropping_def draggingAt_def initialGridItem_def dragCall_def
      sampleUtils_def getPositionParams_def sampleNode_def sampleParent_def)

section \<open>Bounded drags\<close>

text \<open>
  C4 (as amended). In bounded mode, with the \<open>onDrag\<close> callback registered, the
  accumulator dragging and an \<open>offsetParent\<close> present, and provided the item fits its
  container (the container's client height is at least the item's pixel height and the
  container width at least the item's pixel width), after every move event of any
  non-empty run of deltas the stored position satisfies \<open>0 \<le> left \<le> containerWidth - \<close>
  item pixel width and \<open>0 \<le> top \<le> clientHeight - \<close> item pixel height.
\<close>

theorem onDragMoves_contained:
  assumes "onDrag_cb props" and "dragging this" and "isBounded props"
    and "offsetParent node = Some parent"
    and "0 \<le> bottomBoundary utils props parent" and "0 \<le> rightBoundary utils props"
    and "deltas \<noteq> []"
  shows "\<exists>this'. onDragMoves utils props this e node deltas = Inr this'
           \<and> dragging this'
           \<and> 0 \<le> left_px (dragPosition this')
           \<and> left_px (dragPosition this') \<le> rightBoundary utils props
           \<and> 0 \<le> top_px (dragPosition this')
           \<and> top_px (dragPosition this') \<le> bottomBoundary utils props parent"
  using assms(2,7)
proof (induction deltas arbitrary: this)
  case Nil
  then show ?case by simp
next
  case (Cons d deltas)
  obtain deltaX deltaY where d: "d = (deltaX, deltaY)" by (cases d)
  let ?top = "clamp (top_px (dragPosition this) + deltaY - snd (containerPadding props))
                0 (bottomBoundary utils props parent)"
  let ?left = "clamp (left_px (dragPosition this) + deltaX - fst (containerPadding props))
                 0 (rightBoundary utils props)"
  let ?this1 = "this\<lparr>dragPosition := \<lparr>top_px = ?top, left_px = ?left\<rparr>\<rparr>"
  have step: "onDrag utils props this e node deltaX deltaY =
      Inr (?this1, Some (dragCall utils props OnDrag e node \<lparr>top_px = ?top, left_px = ?left\<rparr>))"
    using onDrag_bounded_step[OF assms(1) Cons.prems(1) assms(3,4)] .
  have run: "onDragMoves utils props this e node (d # deltas) =
      onDragMoves utils props ?this1 e node deltas"
    by (simp add: d step)
  have drag1: "dragging ?this1"
    using Cons.prems(1) by simp
  show ?case
  proof (cases "deltas = []")
    case True
    with run drag1 clamp_between[OF assms(5)] clamp_between[OF assms(6)]
    show ?thesis by simp
  next
    case False
    from Cons.IH[OF drag1 False] run show ?thesis by simp
  qed
qed

text \<open>
  A run of two moves at the concrete inputs: the second move overshoots to the right and
  to the top, and the stored position ends on the right boundary and at top 0.
\<close>

theorem onDragMoves_contained_witness:
  "onDrag_cb sampleProps \<and> dragging (draggingAt 50 50) \<and> isBounded sampleProps
   \<and> offsetParent sampleNode = Some sampleParent
   \<and> bottomBoundary sampleUtils sampleProps sampleParent = 570
   \<and> rightBoundary sampleUtils sampleProps = 3035 / 3
   \<and> onDragMoves sampleUtils sampleProps (draggingAt 50 50) ''mousemove'' sampleNode
        [(5, 5), (2000, - 3000)] = Inr (draggingAt 0 (3035 / 3))"
proof -
  have b: "bottomBoundary sampleUtils sampleProps sampleParent = 570"
    by (simp add: bottomBoundary_def sampleUtils_def sampleProps_def sampleParent_def)
  have r: "rightBoundary sampleUtils sampleProps = 3035 / 3"
    by (simp add: rightBoundary_def sampleUtils_def sampleProps_def getPositionParams_def)
  have h: "onDrag_cb sampleProps" "dragging (draggingAt 50 50)" "isBounded sampleProps"
    "offsetParent sampleNode = Some sampleParent"
    by (simp_all add: sampleProps_def draggingAt_def sampleNode_def)
  have pad: "containerPadding sampleProps = (10, 10)"
    by (simp add: sampleProps_def)
  have run: "onDragMoves sampleUtils sampleProps (draggingAt 50 50) ''mousemove'' sampleNode
        [(5, 5), (2000, - 3000)] = Inr (draggingAt 0 (3035 / 3))"
    by (simp add: onDrag_def Let_def b r h pad draggingAt_def initialGridItem_def clamp_def)
  from onDragMoves_contained[of sampleProps "draggingAt 50 50" sampleNode sampleParent
      sampleUtils "[(5, 5), (2000, - 3000)]" "''mousemove''"] h b r run
  show ?thesis by simp
qed

text \<open>
  The claim as the specification has it fails when the item does not fit. The ancestor's
  client height is 20 pixels and the item is 30 pixels high, so the bottom boundary is
  \<open>-10\<close>; a processed move stores \<open>top = 0\<close>, which is above the boundary.
\<close>

theorem onDrag_containment_counterexample:
  "isBounded sampleProps \<and> onDrag_cb sampleProps \<and> dragging (draggingAt 50 50)
   \<and> offsetParent (sampleNode\<lparr>offsetParent := Some smallParent\<rparr>) = Some smallParent
   \<and> onDrag sampleUtils sampleProps (draggingAt 50 50) ''mousemove''
        (sampleNode\<lparr>offsetParent := Some smallParent\<rparr>) 5 5
      = Inr (draggingAt 0 45,
             Some (DragCall OnDrag ''a'' (9/20) 0
                     (GridDragEvent ''mousemove'' (sampleNode\<lparr>offsetParent := Some smallParent\<rparr>)
                        \<lparr>top_px = 0, left_px = 45\<rparr>)))
   \<and> clientHeight smallParent
        - calcGridItemWHPx sampleUtils (item_h sampleProps) (rowHeight sampleProps)
            (snd (margin sampleProps)) = - 10
   \<and> \<not> top_px (dragPosition (draggingAt 0 45))
         \<le> clientHeight smallParent
             - calcGridItemWHPx sampleUtils (item_h sampleProps) (rowHeight sampleProps)
                 (snd (margin sampleProps))"
  by (simp add: onDrag_def Let_def sampleProps_def draggingAt_def initialGridItem_def
      dragCall_def sampleUtils_def getPositionParams_def sampleNode_def smallParent_def
      sampleParent_def clamp_def bottomBoundary_def rightBoundary_def)

text \<open>
  C10 (as amended). In bounded mode with an \<open>offsetParent\<close>, each processed move event
  (callback registered, accumulator dragging) stores
  \<open>top = clamp(previousTop + deltaY - containerPadding.y, 0, clientHeight - \<close> item pixel
  height\<open>)\<close> and \<open>left = clamp(previousLeft + deltaX - containerPadding.x, 0,
  containerWidth - \<close> item pixel width\<open>)\<close>. The padding is subtracted afresh on every
  event, so with positive padding the second of two consecutive zero-delta moves stores a
  position different from the first one's exactly when the first stored position is not
  already \<open>(0, 0)\<close>; a position clamped to \<open>(0, 0)\<close> stays there.
\<close>

theorem onDrag_bounded_update:
  assumes "onDrag_cb props" and "dragging this" and "isBounded props"
    and "offsetParent node = Some parent"
  shows "onDrag utils props this e node deltaX deltaY =
     Inr (this\<lparr>dragPosition :=
             \<lparr>top_px = clamp (top_px (dragPosition this) + deltaY - snd (containerPadding props))
                         0 (bottomBoundary utils props parent),
              left_px = clamp (left_px (dragPosition this) + deltaX - fst (containerPadding props))
                          0 (rightBoundary utils props)\<rparr>\<rparr>,
          Some (dragCall utils props OnDrag e node
             \<lparr>top_px = clamp (top_px (dragPosition this) + deltaY - snd (containerPadding props))
                         0 (bottomBoundary utils props parent),
              left_px = clamp (left_px (dragPosition this) + deltaX - fst (containerPadding props))
                          0 (rightBoundary utils props)\<rparr>))
   \<and> (0 < fst (containerPadding props) \<and> 0 < snd (containerPadding props) \<longrightarrow>
        (\<exists>this1 this2.
            onDragMoves utils props this e node [(0, 0)] = Inr this1
          \<and> onDragMoves utils props this e node [(0, 0), (0, 0)] = Inr this2
          \<and> (dragPosition this2 \<noteq> dragPosition this1)
              = (0 < top_px (dragPosition this1) \<or> 0 < left_px (dragPosition this1))))"
proof -
  let ?t1 = "clamp (top_px (dragPosition this) - snd (containerPadding props))
               0 (bottomBoundary utils props parent)"
  let ?l1 = "clamp (left_px (dragPosition this) - fst (containerPadding props))
               0 (rightBoundary utils props)"
  let ?this1 = "this\<lparr>dragPosition := \<lparr>top_px = ?t1, left_px = ?l1\<rparr>\<rparr>"
  let ?t2 = "clamp (?t1 - snd (containerPadding props)) 0 (bottomBoundary utils props parent)"
  let ?l2 = "clamp (?l1 - fst (containerPadding props)) 0 (rightBoundary utils props)"
  let ?this2 = "this\<lparr>dragPosition := \<lparr>top_px = ?t2, left_px = ?l2\<rparr>\<rparr>"
  have d1: "dragging ?this1" using assms(2) by simp
  have s1: "onDrag utils props this e node 0 0 =
      Inr (?this1, Some (dragCall utils props OnDrag e node \<lparr>top_px = ?t1, left_px = ?l1\<rparr>))"
    using onDrag_bounded_step[OF assms, of utils e 0 0] by simp
  have s2: "onDrag utils props ?this1 e node 0 0 =
      Inr (?this2, Some (dragCall utils props OnDrag e node \<lparr>top_px = ?t2, left_px = ?l2\<rparr>))"
    using onDrag_bounded_step[OF assms(1) d1 assms(3,4), of utils e 0 0] by simp
  have m1: "onDragMoves utils props this e node [(0, 0)] = Inr ?this1"
    by (simp add: s1)
  have m2: "onDragMoves utils props this e node [(0, 0), (0, 0)] = Inr ?this2"
    by (simp add: s1 s2)
  have diff: "(dragPosition ?this2 \<noteq> dragPosition ?this1)
      = (0 < top_px (dragPosition ?this1) \<or> 0 < left_px (dragPosition ?this1))"
    if "0 < fst (containerPadding props)" and "0 < snd (containerPadding props)"
    using clamp_zero_again[OF that(1),
        of "left_px (dragPosition this) - fst (containerPadding props)"
          "rightBoundary utils props"]
      clamp_zero_again[OF that(2),
        of "top_px (dragPosition this) - snd (containerPadding props)"
          "bottomBoundary utils props parent"]
    by auto
  from m1 m2 diff onDrag_bounded_step[OF assms, of utils e deltaX deltaY]
  show ?thesis by blast
qed

theorem onDrag_bounded_update_witness:
  "onDrag_cb sampleProps \<and> dragging (draggingAt 50 50) \<and> isBounded sampleProps
   \<and> offsetParent sampleNode = Some sampleParent
   \<and> 0 < fst (containerPadding sampleProps) \<and> 0 < snd (containerPadding sampleProps)
   \<and> onDragMoves sampleUtils sampleProps (draggingAt 50 50) ''mousemove'' sampleNode [(0, 0)]
       = Inr (draggingAt 40 40)
   \<and> onDragMoves sampleUtils sampleProps (draggingAt 50 50) ''mousemove'' sampleNode
        [(0, 0), (0, 0)] = Inr (draggingAt 30 30)
   \<and> dragPosition (draggingAt 30 30) \<noteq> dragPosition (draggingAt 40 40)"
  using onDrag_bounded_update[of sampleProps "draggingAt 50 50" sampleNode sampleParent
      sampleUtils "''mousemove''" 0 0]
  by (simp add: onDrag_def Let_def sampleProps_def draggingAt_def initialGridItem_def
      dragCall_def sampleUtils_def getPositionParams_def sampleNode_def
      sampleParent_def clamp_def bottomBoundary_def rightBoundary_def)

text \<open>
  The claim as written fails where the clamp holds the position at 0. A move by
  \<open>(-100, -100)\<close> takes the accumulator from \<open>(50, 50)\<close> to \<open>(0, 0)\<close>; the two zero-delta
  moves that follow both store \<open>(0, 0)\<close>, although the padding is \<open>(10, 10)\<close>.
\<close>

theorem onDrag_zero_delta_counterexample:
  "0 < fst (containerPadding sampleProps) \<and> 0 < snd (containerPadding sampleProps)
   \<and> isBounded sampleProps \<and> onDrag_cb sampleProps \<and> dragging (draggingAt 50 50)
   \<and> offsetParent sampleNode = Some sampleParent
   \<and> onDragMoves sampleUtils sampleProps (draggingAt 50 50) ''mousemove'' sampleNode
        [(- 100, - 100)] = Inr (draggingAt 0 0)
   \<and> onDragMoves sampleUtils sampleProps (draggingAt 50 50) ''mousemove'' sampleNode
        [(- 100, - 100), (0, 0)] = Inr (draggingAt 0 0)
   \<and> onDragMoves sampleUtils sampleProps (draggingAt 50 50) ''mousemove'' sampleNode
        [(- 100, - 100), (0, 0), (0, 0)] = Inr (draggingAt 0 0)
   \<and> onDrag sampleUtils sampleProps (draggingAt 0 0) ''mousemove'' sampleNode 0 0
       = Inr (draggingAt 0 0,
              Some (DragCall OnDrag ''a'' 0 0
                     (GridDragEvent ''mousemove'' sampleNode \<lparr>top_px = 0, left_px = 0\<rparr>)))"
  by (simp add: onDrag_def Let_def sampleProps_def draggingAt_def initialGridItem_def
      dragCall_def sampleUtils_def getPositionParams_def sampleNode_def
      sampleParent_def clamp_def bottomBoundary_def rightBoundary_def)

section \<open>Drag start and drag stop\<close>

text \<open>
  C5 (as amended). When the \<open>onDragStart\<close> callback is registered and the node has an
  \<open>offsetParent\<close> (and \<open>transformScale\<close> is not 0), \<open>onDragStart\<close> sets the drag position
  to \<open>left = clientRect.left / transformScale - parentRect.left / transformScale +
  scrollLeft\<close> and the same for \<open>top\<close>, sets \<open>dragging\<close>, and calls the callback with that
  position as \<open>newPosition\<close>; a node 50 pixels right of and 50 pixels below its ancestor,
  with \<open>transformScale = 1\<close> and an unscrolled ancestor, gives \<open>{left: 50, top: 50}\<close>.
  When the callback is not registered the handler returns at once and changes nothing.
\<close>

theorem onDragStart_offset:
  "(\<not> onDragStart_cb props \<longrightarrow> onDragStart utils props this e node = Inr (this, None))
   \<and> (onDragStart_cb props \<and> offsetParent node = Some parent \<and> transformScale props \<noteq> 0 \<longrightarrow>
        onDragStart utils props this e node =
          Inr (this\<lparr>dragPosition :=
                 \<lparr>top_px = rect_top (getBoundingClientRect node) / transformScale props
                            - rect_top (getBoundingClientRect parent) / transformScale props
                            + scrollTop parent,
                  left_px = rect_left (getBoundingClientRect node) / transformScale props
                            - rect_left (getBoundingClientRect parent) / transformScale props
                            + scrollLeft parent\<rparr>,
                 dragging := True\<rparr>,
               Some (dragCall utils props OnDragStart e node
                 \<lparr>top_px = rect_top (getBoundingClientRect node) / transformScale props
                            - rect_top (getBoundingClientRect parent) / transformScale props
                            + scrollTop parent,
                  left_px = rect_left (getBoundingClientRect node) / transformScale props
                            - rect_left (getBoundingClientRect parent) / transformScale props
                            + scrollLeft parent\<rparr>))
        \<and> (transformScale props = 1
             \<and> rect_left (getBoundingClientRect node)
                 = rect_left (getBoundingClientRect parent) + 50
             \<and> rect_top (getBoundingClientRect node)
                 = rect_top (getBoundingClientRect parent) + 50
             \<and> scrollLeft parent = 0 \<and> scrollTop parent = 0
           \<longrightarrow> onDragStart utils props this e node =
                 Inr (this\<lparr>dragPosition := \<lparr>top_px = 50, left_px = 50\<rparr>, dragging := True\<rparr>,
                      Some (dragCall utils props OnDragStart e node
                              \<lparr>top_px = 50, left_px = 50\<rparr>))))"
  by (simp add: onDragStart_def Let_def)

text \<open>
  Scenario B at the concrete inputs, and the same event without the callback.
\<close>

theorem onDragStart_offset_witness:
  "onDragStart_cb sampleProps \<and> offsetParent sampleNode = Some sampleParent
   \<and> transformScale sampleProps = 1
   \<and> rect_left (getBoundingClientRect sampleNode)
       = rect_left (getBoundingClientRect sampleParent) + 50
   \<and> rect_top (getBoundingClientRect sampleNode)
       = rect_top (getBoundingClientRect sampleParent) + 50
   \<and> scrollLeft sampleParent = 0 \<and> scrollTop sampleParent = 0
   \<and> onDragStart sampleUtils sampleProps initialGridItem ''mousedown'' sampleNode =
       Inr (initialGridItem\<lparr>dragPosition := \<lparr>top_px = 50, left_px = 50\<rparr>, dragging := True\<rparr>,
            Some (DragCall OnDragStart ''a'' (1/2) (5/3)
                    (GridDragEvent ''mousedown'' sampleNode \<lparr>top_px = 50, left_px = 50\<rparr>)))
   \<and> \<not> onDragStart_cb (sampleProps\<lparr>onDragStart_cb := False\<rparr>)
   \<and> onDragStart sampleUtils (sampleProps\<lparr>onDragStart_cb := False\<rparr>) initialGridItem
        ''mousedown'' sampleNode = Inr (initialGridItem, None)"
  using onDragStart_offset[of sampleProps sampleUtils initialGridItem "''mousedown''"
      sampleNode sampleParent]
    onDragStart_offset[of "sampleProps\<lparr>onDragStart_cb := False\<rparr>" sampleUtils
      initialGridItem "''mousedown''" sampleNode sampleParent]
  by (simp add: sampleProps_def sampleNode_def sampleParent_def dragCall_def
      sampleUtils_def getPositionParams_def)

text \<open>
  The claim as the specification has it fails when the host registered no \<open>onDragStart\<close>
  callback: the node has its \<open>offsetParent\<close>, yet the accumulator is not set to the offset
  \<open>(50, 50)\<close> and does not become dragging.
\<close>

theorem onDragStart_no_callback_counterexample:
  "offsetParent sampleNode = Some sampleParent
   \<and> onDragStart sampleUtils (sampleProps\<lparr>onDragStart_cb := False\<rparr>) initialGridItem
        ''mousedown'' sampleNode = Inr (initialGridItem, None)
   \<and> \<not> dragging initialGridItem
   \<and> dragPosition initialGridItem \<noteq> \<lparr>top_px = 50, left_px = 50\<rparr>"
  by (simp add: onDragStart_def sampleProps_def sampleNode_def initialGridItem_def)

text \<open>
  C6. A drag start whose node has no \<open>offsetParent\<close> returns the state as it was and calls
  no callback: the position computation is skipped, \<open>dragging\<close> and \<open>dragPosition\<close> keep
  their values.
\<close>

theorem onDragStart_no_offsetParent:
  "offsetParent node = None \<Longrightarrow> onDragStart utils props this e node = Inr (this, None)"
  by (simp add: onDragStart_def)

theorem onDragStart_no_offsetParent_witness:
  "offsetParent (sampleNode\<lparr>offsetParent := None\<rparr>) = None
   \<and> onDragStart sampleUtils sampleProps (draggingAt 7 9) ''mousedown''
        (sampleNode\<lparr>offsetParent := None\<rparr>) = Inr (draggingAt 7 9, None)
   \<and> onDragStart sampleUtils sampleProps initialGridItem ''mousedown''
        (sampleNode\<lparr>offsetParent := None\<rparr>) = Inr (initialGridItem, None)"
  using onDragStart_no_offsetParent[of "sampleNode\<lparr>offsetParent := None\<rparr>" sampleUtils
      sampleProps "draggingAt 7 9" "''mousedown''"]
    onDragStart_no_offsetParent[of "sampleNode\<lparr>offsetParent := None\<rparr>" sampleUtils
      sampleProps initialGridItem "''mousedown''"]
  by simp

text \<open>
  C8 (as amended). When a drag stop arrives while the accumulator is dragging and the
  \<open>onDragStop\<close> callback is registered, the callback is called with the last accumulated
  position as \<open>newPosition\<close>, and afterwards the accumulator is idle with the position
  reset to \<open>{left: 0, top: 0}\<close>. When the callback is not registered the handler returns
  at once: the accumulator stays as it was.
\<close>

theorem onDragStop_resets:
  "(\<not> onDragStop_cb props \<longrightarrow> onDragStop utils props this e node = Inr (this, None))
   \<and> (onDragStop_cb props \<and> dragging this \<longrightarrow>
        onDragStop utils props this e node =
          Inr (this\<lparr>dragging := False, dragPosition := \<lparr>top_px = 0, left_px = 0\<rparr>\<rparr>,
               Some (dragCall utils props OnDragStop e node (dragPosition this))))"
  by (simp add: onDragStop_def Let_def PartialPosition_eta)

theorem onDragStop_resets_witness:
  "onDragStop_cb sampleProps \<and> dragging (draggingAt 40 120)
   \<and> onDragStop sampleUtils sampleProps (draggingAt 40 120) ''mouseup'' sampleNode =
       Inr (initialGridItem\<lparr>elementRef := Some sampleNode\<rparr>,
            Some (DragCall OnDragStop ''a'' (6/5) (4/3)
                    (GridDragEvent ''mouseup'' sampleNode \<lparr>top_px = 40, left_px = 120\<rparr>)))
   \<and> \<not> onDragStop_cb (sampleProps\<lparr>onDragStop_cb := False\<rparr>)
   \<and> onDragStop sampleUtils (sampleProps\<lparr>onDragStop_cb := False\<rparr>) (draggingAt 40 120)
        ''mouseup'' sampleNode = Inr (draggingAt 40 120, None)"
  using onDragStop_resets[of sampleProps sampleUtils "draggingAt 40 120" "''mouseup''"
      sampleNode]
    onDragStop_resets[of "sampleProps\<lparr>onDragStop_cb := False\<rparr>" sampleUtils
      "draggingAt 40 120" "''mouseup''" sampleNode]
  by (simp add: sampleProps_def draggingAt_def initialGridItem_def dragCall_def
      sampleUtils_def getPositionParams_def)

text \<open>
  The claim as the specification has it fails when the host registered no \<open>onDragStop\<close>
  callback: the stop arrives while dragging, nothing is emitted, and afterwards the
  accumulator is still dragging at \<open>(40, 120)\<close>.
\<close>

theorem onDragStop_no_callback_counterexample:
  "dragging (draggingAt 40 120)
   \<and> onDragStop sampleUtils (sampleProps\<lparr>onDragStop_cb := False\<rparr>) (draggingAt 40 120)
        ''mouseup'' sampleNode = Inr (draggingAt 40 120, None)
   \<and> dragPosition (draggingAt 40 120) \<noteq> \<lparr>top_px = 0, left_px = 0\<rparr>"
  by (simp add: onDragStop_def sampleProps_def draggingAt_def)

section \<open>Grid-unit clamps of a resize\<close>

text \<open>
  C7. Whenever a resize event produces a notification, and the bounds are ordered
  (\<open>max(minW, 1) \<le> maxW\<close> and \<open>minH \<le> maxH\<close>), the emitted \<open>w\<close> lies in
  \<open>[max(minW, 1), maxW]\<close> and the emitted \<open>h\<close> in \<open>[minH, maxH]\<close>. The clamps come after
  the pixel-level resolution: \<open>w\<close> and \<open>h\<close> are the clamped grid size of the box that
  \<open>resizeItemInDirection\<close> returned (of the proposed size when there is no node). The
  defaults are \<open>minW = minH = 1\<close> and \<open>maxW = maxH = Infinity\<close>.
\<close>

theorem onResizeHandler_grid_clamp:
  assumes "onResizeHandler utils props this e node size0 handle position handlerName =
             Inr (this', Some (ResizeCall name i w h payload))"
    and "max (minW props) (Finite 1) \<le> maxW props"
    and "minH props \<le> maxH props"
  shows "max (minW props) (Finite 1) \<le> w \<and> w \<le> maxW props
    \<and> minH props \<le> h \<and> h \<le> maxH props
    \<and> w = clamp (fst (calcWH utils (getPositionParams props)
                (size_width (if node \<noteq> None
                   then resizeItemInDirection utils handle position size0 (containerWidth props)
                   else size0))
                (size_height (if node \<noteq> None
                   then resizeItemInDirection utils handle position size0 (containerWidth props)
                   else size0))
                (item_x props) (item_y props) handle))
            (max (minW props) (Finite 1)) (maxW props)
    \<and> h = clamp (snd (calcWH utils (getPositionParams props)
                (size_width (if node \<noteq> None
                   then resizeItemInDirection utils handle position size0 (containerWidth props)
                   else size0))
                (size_height (if node \<noteq> None
                   then resizeItemInDirection utils handle position size0 (containerWidth props)
                   else size0))
                (item_x props) (item_y props) handle))
            (minH props) (maxH props)
    \<and> minW defaultProps = Finite 1 \<and> minH defaultProps = Finite 1
    \<and> maxW defaultProps = Infinity \<and> maxH defaultProps = Infinity"
proof -
  let ?u = "if node \<noteq> None
             then resizeItemInDirection utils handle position size0 (containerWidth props)
             else size0"
  let ?wh = "calcWH utils (getPositionParams props) (size_width ?u) (size_height ?u)
               (item_x props) (item_y props) handle"
  from assms(1) have reg: "propsHandler props handlerName"
    by (auto simp: onResizeHandler_def split: if_splits)
  with assms(1) have w: "w = clamp (fst ?wh) (max (minW props) (Finite 1)) (maxW props)"
    and h: "h = clamp (snd ?wh) (minH props) (maxH props)"
    by (auto simp: onResizeHandler_def Let_def split: if_splits)
  from clamp_between[OF assms(2), of "fst ?wh"] w
  have wb: "max (minW props) (Finite 1) \<le> w \<and> w \<le> maxW props" by simp
  from clamp_between[OF assms(3), of "snd ?wh"] h
  have hb: "minH props \<le> h \<and> h \<le> maxH props" by simp
  have d: "minW defaultProps = Finite 1 \<and> minH defaultProps = Finite 1
    \<and> maxW defaultProps = Infinity \<and> maxH defaultProps = Infinity"
    by (simp add: defaultProps_def)
  from wb hb w h d show ?thesis by blast
qed

text \<open>
  A resize to a width of 20 pixels, a fifth of a column: the emitted width is raised to 1.
\<close>

theorem onResizeHandler_grid_clamp_witness:
  "onResizeHandler sampleUtils sampleProps initialGridItem ''mousemove'' (Some sampleNode)
      (sampleSize\<lparr>size_width := 20\<rparr>) Axis_se samplePosition OnResize =
     Inr (initialGridItem\<lparr>resizing := Some \<lparr>size_top = Some 100, size_left = Some 100,
              size_width = 20, size_height = 60\<rparr>,
            resizePosition := \<lparr>top_px = 100, left_px = 100, width_px = 20, height_px = 60\<rparr>\<rparr>,
          Some (ResizeCall OnResize ''a'' (Finite 1) (Finite 2)
                  (GridResizeEvent ''mousemove'' (Some sampleNode)
                     \<lparr>size_top = Some 100, size_left = Some 100,
                      size_width = 20, size_height = 60\<rparr> Axis_se)))
   \<and> max (minW sampleProps) (Finite 1) \<le> maxW sampleProps
   \<and> minH sampleProps \<le> maxH sampleProps
   \<and> max (minW sampleProps) (Finite 1) \<le> Finite 1 \<and> Finite 1 \<le> maxW sampleProps
   \<and> minH sampleProps \<le> Finite 2 \<and> Finite 2 \<le> maxH sampleProps"
proof -
  have run: "onResizeHandler sampleUtils sampleProps initialGridItem ''mousemove''
      (Some sampleNode) (sampleSize\<lparr>size_width := 20\<rparr>) Axis_se samplePosition OnResize =
     Inr (initialGridItem\<lparr>resizing := Some \<lparr>size_top = Some 100, size_left = Some 100,
              size_width = 20, size_height = 60\<rparr>,
            resizePosition := \<lparr>top_px = 100, left_px = 100, width_px = 20, height_px = 60\<rparr>\<rparr>,
          Some (ResizeCall OnResize ''a'' (Finite 1) (Finite 2)
                  (GridResizeEvent ''mousemove'' (Some sampleNode)
                     \<lparr>size_top = Some 100, size_left = Some 100,
                      size_width = 20, size_height = 60\<rparr> Axis_se)))"
    by (simp add: onResizeHandler_def Let_def sampleProps_def sampleSize_def
        samplePosition_def sampleUtils_def getPositionParams_def clamp_def spread_def
        initialGridItem_def)
  have o1: "max (minW sampleProps) (Finite 1) \<le> maxW sampleProps"
    by (simp add: sampleProps_def)
  have o2: "minH sampleProps \<le> maxH sampleProps"
    by (simp add: sampleProps_def)
  from onResizeHandler_grid_clamp[OF run o1 o2] run o1 o2 show ?thesis by blast
qed

section \<open>A resize event without a node\<close>

text \<open>
  C9. When the callback of a resize event is registered but the node is absent, the
  direction resolver is not run and the override is not touched: the callback is still
  called, its \<open>size\<close> is the proposed size as it came, \<open>resizing\<close> keeps its value, and
  \<open>resizePosition\<close> becomes the proposed size merged over the anchor position (for a
  proposed \<open>{width, height}\<close>: the anchor's \<open>top\<close> and \<open>left\<close> with the proposed \<open>width\<close>
  and \<open>height\<close>).
\<close>

theorem onResizeHandler_no_node:
  assumes "propsHandler props handlerName"
  shows "onResizeHandler utils props this e None size0 handle position handlerName =
     Inr (this\<lparr>resizePosition := spread position size0\<rparr>,
          Some (ResizeCall handlerName (item_i props)
            (clamp (fst (calcWH utils (getPositionParams props) (size_width size0)
                      (size_height size0) (item_x props) (item_y props) handle))
               (max (minW props) (Finite 1)) (maxW props))
            (clamp (snd (calcWH utils (getPositionParams props) (size_width size0)
                      (size_height size0) (item_x props) (item_y props) handle))
               (minH props) (maxH props))
            (GridResizeEvent e None size0 handle)))
    \<and> resizing (this\<lparr>resizePosition := spread position size0\<rparr>) = resizing this
    \<and> (size_top size0 = None \<and> size_left size0 = None \<longrightarrow>
         spread position size0 =
           \<lparr>top_px = top_px position, left_px = left_px position,
            width_px = size_width size0, height_px = size_height size0\<rparr>)"
  using assms by (simp add: onResizeHandler_def Let_def spread_def)

theorem onResizeHandler_no_node_witness:
  "propsHandler sampleProps OnResize
   \<and> size_top sampleSize = None \<and> size_left sampleSize = None
   \<and> onResizeHandler sampleUtils sampleProps (initialGridItem\<lparr>resizing := Some sampleSize\<rparr>)
        ''mousemove'' None sampleSize Axis_nw samplePosition OnResize =
       Inr (initialGridItem\<lparr>resizing := Some sampleSize, resizePosition :=
               \<lparr>top_px = 100, left_px = 100, width_px = 150, height_px = 60\<rparr>\<rparr>,
            Some (ResizeCall OnResize ''a'' (Finite (3/2)) (Finite 2)
                    (GridResizeEvent ''mousemove'' None sampleSize Axis_nw)))"
  using onResizeHandler_no_node[of sampleProps OnResize sampleUtils
      "initialGridItem\<lparr>resizing := Some sampleSize\<rparr>" "''mousemove''" sampleSize
      Axis_nw samplePosition]
  by (simp add: sampleProps_def sampleSize_def samplePosition_def sampleUtils_def
      getPositionParams_def clamp_def initialGridItem_def)

end
